theory Spec2Isabelle
  imports Complex_Main "HOL-Library.Word"
begin

section \<open>JavaScript values\<close>

text \<open>
  The values that cross the module boundaries: what \<open>response.json()\<close> hands to
  \<open>Esplora.block\<close>, and what a caller may pass to \<open>UrlWhitelist.add\<close>. A number is
  the exact value of the double; an object is the list of its own properties.
\<close>

datatype js_value =
    JUndefined
  | JNull
  | JBool bool
  | JNumber rat
  | JString string
  | JArray "js_value list"
  | JObject "(string \<times> js_value) list"

text \<open>JavaScript's \<open>ToBoolean\<close>, the test behind \<open>!x\<close> and \<open>x ? a : b\<close>.\<close>

fun truthy :: "js_value \<Rightarrow> bool" where
  "truthy JUndefined = False"
| "truthy JNull = False"
| "truthy (JBool b) = b"
| "truthy (JNumber n) = (n \<noteq> 0)"
| "truthy (JString s) = (s \<noteq> [])"
| "truthy (JArray xs) = True"
| "truthy (JObject kvs) = True"

text \<open>
  The member access \<open>body.merkle_root\<close> / \<open>body.timestamp\<close> on a value that is not
  \<open>null\<close> or \<open>undefined\<close>: an object yields its property or \<open>undefined\<close>; a
  primitive or an array has no property of either name.
\<close>

fun get_prop :: "js_value \<Rightarrow> string \<Rightarrow> js_value" where
  "get_prop (JObject kvs) k = (case map_of kvs k of Some v \<Rightarrow> v | None \<Rightarrow> JUndefined)"
| "get_prop v k = JUndefined"

type_synonym byte = "8 word"

section \<open>Errors\<close>

text \<open>
  Modelled from the spec: \<open>extend-error.js\<close> (\<open>Error.extend\<close>) is not among the
  sources. Following the spec's design note, the classes made by \<open>Error.extend\<close> are the
  tags of a closed error type, each carrying its message, and the \<open>name\<close> of an instance
  is the string given to \<open>Error.extend\<close>. \<open>OtherError name message\<close> is any error
  object that is an instance of none of these classes: \<open>new Error(m)\<close> is
  \<open>OtherError ''Error'' m\<close>, the abort of a fetch is an \<open>OtherError ''AbortError'' m\<close>.
  The message type is \<open>string\<close> in calendar.js; esplora.js also passes a parsed body.
\<close>

datatype 'm js_error =
    URLError 'm
  | CommitmentNotFoundError 'm
  | ExceededSizeError 'm
  | OtherError string string

fun error_name :: "'m js_error \<Rightarrow> string" where
  "error_name (URLError m) = ''URLError''"
| "error_name (CommitmentNotFoundError m) = ''CommitmentNotFoundError''"
| "error_name (ExceededSizeError m) = ''ExceededSizeError''"
| "error_name (OtherError n m) = n"

fun error_message :: "string js_error \<Rightarrow> string" where
  "error_message (URLError m) = m"
| "error_message (CommitmentNotFoundError m) = m"
| "error_message (ExceededSizeError m) = m"
| "error_message (OtherError n m) = m"

text \<open>\<open>Error.prototype.toString\<close>.\<close>

definition error_toString :: "string js_error \<Rightarrow> string" where
  "error_toString e =
     (if error_name e = [] then error_message e
      else if error_message e = [] then error_name e
      else error_name e @ '': '' @ error_message e)"

text \<open>The expression \<open>err.message || err.toString()\<close>.\<close>

definition message_or_toString :: "string js_error \<Rightarrow> string" where
  "message_or_toString e = (if error_message e \<noteq> [] then error_message e else error_toString e)"

definition Error_new :: "string \<Rightarrow> 'm js_error" where
  "Error_new m = OtherError ''Error'' m"

definition TypeError_new :: "string \<Rightarrow> 'm js_error" where
  "TypeError_new m = OtherError ''TypeError'' m"

section \<open>Timers and promises\<close>

text \<open>
  The timers of the event loop: \<open>pending\<close> holds the ids whose callback has not run and
  that have not been cleared. \<open>setTimeout\<close> returns a fresh non-zero id.
\<close>

record timers =
  counter :: nat
  pending :: "nat list"

definition setTimeout :: "timers \<Rightarrow> nat \<times> timers" where
  "setTimeout s = (Suc (counter s), s\<lparr>counter := Suc (counter s), pending := Suc (counter s) # pending s\<rparr>)"

definition clearTimeout :: "nat \<Rightarrow> timers \<Rightarrow> timers" where
  "clearTimeout i s = s\<lparr>pending := removeAll i (pending s)\<rparr>"

text \<open>A timer that expires runs its callback once and is pending no longer.\<close>

definition expire :: "nat \<Rightarrow> timers \<Rightarrow> timers" where
  "expire i s = s\<lparr>pending := removeAll i (pending s)\<rparr>"

text \<open>The statement \<open>if (timeoutId) clearTimeout(timeoutId)\<close>; \<open>None\<close> is \<open>null\<close>.\<close>

definition clear_if_set :: "nat option \<Rightarrow> timers \<Rightarrow> timers" where
  "clear_if_set t s = (case t of Some i \<Rightarrow> clearTimeout i s | None \<Rightarrow> s)"

text \<open>
  The state a promise ends in. \<open>Pending\<close> is a promise that never settles: the caller
  is never called back.
\<close>

datatype ('e, 'a) promise = Pending | Rejected 'e | Fulfilled 'a

type_synonym ('e, 'a) async = "timers \<Rightarrow> ('e, 'a) promise \<times> timers"

definition throw :: "'e \<Rightarrow> ('e, 'a) async" where
  "throw e s = (Rejected e, s)"

definition fulfil :: "'a \<Rightarrow> ('e, 'a) async" where
  "fulfil v s = (Fulfilled v, s)"

text \<open>\<open>p.then(f)\<close>: \<open>f\<close> runs on the value; a rejection skips it.\<close>

definition then_p :: "('e, 'a) async \<Rightarrow> ('a \<Rightarrow> ('e, 'b) async) \<Rightarrow> ('e, 'b) async" where
  "then_p p f s =
     (case p s of
        (Fulfilled v, s') \<Rightarrow> f v s'
      | (Rejected e, s') \<Rightarrow> (Rejected e, s')
      | (Pending, s') \<Rightarrow> (Pending, s'))"

text \<open>\<open>p.catch(h)\<close>: \<open>h\<close> runs on the rejection; a value passes through.\<close>

definition catch_p :: "('e, 'a) async \<Rightarrow> ('e \<Rightarrow> ('e, 'a) async) \<Rightarrow> ('e, 'a) async" where
  "catch_p p h s =
     (case p s of
        (Rejected e, s') \<Rightarrow> h e s'
      | (Fulfilled v, s') \<Rightarrow> (Fulfilled v, s')
      | (Pending, s') \<Rightarrow> (Pending, s'))"

section \<open>The transport\<close>

text \<open>
  What reading the body (\<open>arrayBuffer()\<close>, \<open>text()\<close>, \<open>json()\<close>) comes to: the body,
  a failure with the name and message of the platform's error, or a read that the server
  never completes (\<open>BodyStalls m\<close>; \<open>m\<close> is the message of the platform's abort error,
  should the read be aborted).
\<close>

datatype 'b body_read = BodyRead 'b | BodyFails string string | BodyStalls string

record 'b response =
  status :: nat
  statusText :: string
  body :: "'b body_read"

text \<open>\<open>response.ok\<close>.\<close>

definition ok :: "'b response \<Rightarrow> bool" where
  "ok r = (200 \<le> status r \<and> status r \<le> 299)"

text \<open>
  What the server and the network do to one \<open>fetch\<close> call. \<open>NoResponse m\<close>: no response
  and no failure arrives before the timer of the call expires (ever, if no timer is
  pending); \<open>m\<close> is the message of the platform's abort error. \<open>ConnectionFails n m\<close>:
  the platform rejects with an error of name \<open>n\<close> and message \<open>m\<close>. \<open>Responds r\<close>:
  the response headers arrive in time.
\<close>

datatype 'b transport = NoResponse string | ConnectionFails string string | Responds "'b response"

text \<open>
  Waiting on a request whose \<open>signal\<close> belongs to the timer \<open>t\<close> of the call, when
  nothing more arrives. If that timer is still pending it expires, its callback calls
  \<open>controller.abort()\<close> and the wait rejects with the platform's \<open>AbortError\<close>. If the
  call has no timer, or the timer has been cleared, nothing ever ends the wait.
\<close>

definition wait_for_abort :: "string \<Rightarrow> nat option \<Rightarrow> ('m js_error, 'a) async" where
  "wait_for_abort m t s =
     (case t of
        Some i \<Rightarrow>
          if i \<in> set (pending s) then (Rejected (OtherError ''AbortError'' m), expire i s)
          else (Pending, s)
      | None \<Rightarrow> (Pending, s))"

text \<open>\<open>fetch(url, {..., signal: controller.signal})\<close> with the timer \<open>t\<close> of the call.\<close>

definition fetch :: "'b transport \<Rightarrow> nat option \<Rightarrow> ('m js_error, 'b response) async" where
  "fetch srv t s =
     (case srv of
        Responds r \<Rightarrow> (Fulfilled r, s)
      | ConnectionFails n m \<Rightarrow> (Rejected (OtherError n m), s)
      | NoResponse m \<Rightarrow> wait_for_abort m t s)"

text \<open>
  \<open>response.arrayBuffer()\<close>, \<open>response.text()\<close>, \<open>response.json()\<close>: the read of the
  body goes on under the signal of the request.
\<close>

definition read_body :: "'b response \<Rightarrow> nat option \<Rightarrow> ('m js_error, 'b) async" where
  "read_body r t s =
     (case body r of
        BodyRead b \<Rightarrow> (Fulfilled b, s)
      | BodyFails n m \<Rightarrow> (Rejected (OtherError n m), s)
      | BodyStalls m \<Rightarrow> wait_for_abort m t s)"

text \<open>Decimal digits of a number, as a template literal prints \<open>response.status\<close>.\<close>

fun string_of_nat :: "nat \<Rightarrow> string" where
  "string_of_nat n =
     (if n < 10 then [''0123456789'' ! n]
      else string_of_nat (n div 10) @ [''0123456789'' ! (n mod 10)])"

declare string_of_nat.simps [simp del]

definition http_message :: "'b response \<Rightarrow> string" where
  "http_message r = ''HTTP '' @ string_of_nat (status r) @ '': '' @ statusText r"

section \<open>calendar.js: RemoteCalendar\<close>

text \<open>
  The constructor sets \<open>url\<close> and \<open>headers\<close>; \<open>timeout\<close> is a property the caller may
  set afterwards (\<open>None\<close> is \<open>undefined\<close>). The request itself (URL, method, headers,
  body) decides nothing of what the handlers below do and is not part of the model.
\<close>

record RemoteCalendar =
  rc_url :: string
  rc_headers :: "(string \<times> string) list"
  rc_timeout :: "nat option"

definition RemoteCalendar_new :: "string \<Rightarrow> bool \<Rightarrow> RemoteCalendar" where
  "RemoteCalendar_new u browser =
     \<lparr>rc_url = u,
      rc_headers =
        [(''Accept'', ''application/vnd.opentimestamps.v1''),
         (''Content-Type'', ''application/x-www-form-urlencoded'')]
        @ (if \<not> browser then [(''User-Agent'', ''javascript-opentimestamps'')] else []),
      rc_timeout = None\<rparr>"

text \<open>\<open>this.timeout ? setTimeout(() => controller.abort(), this.timeout) : null\<close>.\<close>

definition arm_if_configured :: "nat option \<Rightarrow> timers \<Rightarrow> nat option \<times> timers" where
  "arm_if_configured t s =
     (case t of
        None \<Rightarrow> (None, s)
      | Some ms \<Rightarrow> if ms \<noteq> 0 then (Some (fst (setTimeout s)), snd (setTimeout s)) else (None, s))"

text \<open>
  \<open>Timestamp.deserialize(new Context.StreamDeserialization(body), digest)\<close> is the
  external decoder: a parameter that returns the timestamp or throws an error of its own,
  given by name and message.
\<close>

type_synonym 'ts deserializer = "byte list \<Rightarrow> byte list \<Rightarrow> (string \<times> string) + 'ts"

definition decode :: "'ts deserializer \<Rightarrow> byte list \<Rightarrow> byte list \<Rightarrow> (string js_error, 'ts) async" where
  "decode deserialize b d =
     (case deserialize b d of
        Inl (n, m) \<Rightarrow> throw (OtherError n m)
      | Inr ts \<Rightarrow> fulfil ts)"

text \<open>The two \<open>then\<close> callbacks of \<open>submit\<close>, before its \<open>catch\<close>.\<close>

definition submit_chain ::
  "'ts deserializer \<Rightarrow> byte list \<Rightarrow> byte list transport \<Rightarrow> nat option \<Rightarrow> (string js_error, 'ts) async" where
  "submit_chain deserialize digest srv timeoutId =
     then_p
       (then_p (fetch srv timeoutId)
          (\<lambda>response s.
             let s' = clear_if_set timeoutId s in
             if \<not> ok response then throw (URLError (http_message response)) s'
             else read_body response timeoutId s'))
       (\<lambda>b.
          if length b > 10000 then throw (ExceededSizeError ''Calendar response exceeded size limit'')
          else decode deserialize b digest)"

definition submit_catch :: "nat option \<Rightarrow> string js_error \<Rightarrow> (string js_error, 'ts) async" where
  "submit_catch timeoutId err s =
     (let s' = clear_if_set timeoutId s in
      if error_name err = ''AbortError'' then throw (URLError ''Request timeout'') s'
      else if (case err of ExceededSizeError m \<Rightarrow> True | URLError m \<Rightarrow> True | _ \<Rightarrow> False)
        then throw err s'
      else throw (URLError (message_or_toString err)) s')"

definition RemoteCalendar_submit ::
  "RemoteCalendar \<Rightarrow> 'ts deserializer \<Rightarrow> byte list \<Rightarrow> byte list transport \<Rightarrow> (string js_error, 'ts) async" where
  "RemoteCalendar_submit rc deserialize digest srv s =
     (let timeoutId = fst (arm_if_configured (rc_timeout rc) s);
          s1 = snd (arm_if_configured (rc_timeout rc) s)
      in catch_p (submit_chain deserialize digest srv timeoutId) (submit_catch timeoutId) s1)"

text \<open>\<open>getTimestamp\<close>: the same shape, with the 404 case and plain \<open>Error\<close>s.\<close>

definition getTimestamp_chain ::
  "'ts deserializer \<Rightarrow> byte list \<Rightarrow> byte list transport \<Rightarrow> nat option \<Rightarrow> (string js_error, 'ts) async" where
  "getTimestamp_chain deserialize commitment srv timeoutId =
     then_p
       (then_p (fetch srv timeoutId)
          (\<lambda>response s.
             let s' = clear_if_set timeoutId s in
             if status response = 404 then throw (CommitmentNotFoundError ''Commitment not found'') s'
             else if \<not> ok response then throw (Error_new (http_message response)) s'
             else read_body response timeoutId s'))
       (\<lambda>b.
          if length b > 10000 then throw (ExceededSizeError ''Calendar response exceeded size limit'')
          else decode deserialize b commitment)"

definition getTimestamp_catch :: "nat option \<Rightarrow> string js_error \<Rightarrow> (string js_error, 'ts) async" where
  "getTimestamp_catch timeoutId err s =
     (let s' = clear_if_set timeoutId s in
      if error_name err = ''AbortError'' then throw (Error_new ''Request timeout'') s'
      else if (case err of CommitmentNotFoundError m \<Rightarrow> True | ExceededSizeError m \<Rightarrow> True | _ \<Rightarrow> False)
        then throw err s'
      else throw (Error_new (message_or_toString err)) s')"

definition RemoteCalendar_getTimestamp ::
  "RemoteCalendar \<Rightarrow> 'ts deserializer \<Rightarrow> byte list \<Rightarrow> byte list transport \<Rightarrow> (string js_error, 'ts) async" where
  "RemoteCalendar_getTimestamp rc deserialize commitment srv s =
     (let timeoutId = fst (arm_if_configured (rc_timeout rc) s);
          s1 = snd (arm_if_configured (rc_timeout rc) s)
      in catch_p (getTimestamp_chain deserialize commitment srv timeoutId) (getTimestamp_catch timeoutId) s1)"

text \<open>
  \<open>Utils.bytesToHex(commitment)\<close> only enters the request URL, which the model leaves
  out.
\<close>

section \<open>calendar.js: UrlWhitelist\<close>

text \<open>
  Modelled from the spec: \<open>minimatch\<close> is a package the module requires and is not among
  the sources. The spec gives its matching rules: \<open>*\<close> matches any run of characters,
  \<open>?\<close> matches one character, every other character must match exactly.
  \<open>glob_match pattern text\<close> tells whether the whole text matches the pattern.
\<close>

fun glob_match :: "string \<Rightarrow> string \<Rightarrow> bool" where
  "glob_match [] [] = True"
| "glob_match [] (c # cs) = False"
| "glob_match (p # ps) [] = (p = CHR ''*'' \<and> glob_match ps [])"
| "glob_match (p # ps) (c # cs) =
     (if p = CHR ''*'' then glob_match ps (c # cs) \<or> glob_match (p # ps) cs
      else (p = CHR ''?'' \<or> p = c) \<and> glob_match ps cs)"

definition minimatch :: "string \<Rightarrow> string \<Rightarrow> bool" where
  "minimatch u pattern = glob_match pattern u"

text \<open>\<open>String.prototype.startsWith\<close>.\<close>

definition startsWith :: "string \<Rightarrow> string \<Rightarrow> bool" where
  "startsWith s p = (take (length p) s = p)"

text \<open>
  \<open>this.urls\<close> is a JavaScript \<open>Set\<close>: its elements in insertion order, none twice.
  \<open>Set_add\<close> is \<open>Set.prototype.add\<close>.
\<close>

definition Set_add :: "'a \<Rightarrow> 'a list \<Rightarrow> 'a list" where
  "Set_add x xs = (if x \<in> set xs then xs else xs @ [x])"

definition UrlWhitelist_add :: "js_value \<Rightarrow> string list \<Rightarrow> string js_error + string list" where
  "UrlWhitelist_add u urls =
     (case u of
        JString url \<Rightarrow>
          if startsWith url ''http://'' \<or> startsWith url ''https://''
          then Inr (Set_add url urls)
          else Inr (Set_add (''https://'' @ url) (Set_add (''http://'' @ url) urls))
      | _ \<Rightarrow> Inl (TypeError_new ''URL must be a string''))"

text \<open>\<open>urls.forEach(u => this.add(u))\<close>: the first throw ends the loop.\<close>

fun forEach_add :: "js_value list \<Rightarrow> string list \<Rightarrow> string js_error + string list" where
  "forEach_add [] urls = Inr urls"
| "forEach_add (u # us) urls =
     (case UrlWhitelist_add u urls of
        Inl e \<Rightarrow> Inl e
      | Inr urls' \<Rightarrow> forEach_add us urls')"

text \<open>The constructor; \<open>None\<close> is a missing (falsy) argument.\<close>

definition UrlWhitelist_new :: "js_value list option \<Rightarrow> string js_error + string list" where
  "UrlWhitelist_new urls =
     (case urls of
        None \<Rightarrow> Inr []
      | Some us \<Rightarrow> forEach_add us [])"

definition UrlWhitelist_contains :: "string list \<Rightarrow> string \<Rightarrow> bool" where
  "UrlWhitelist_contains urls u = (length (filter (\<lambda>p. minimatch u p) urls) > 0)"

definition DEFAULT_CALENDAR_WHITELIST :: "string js_error + string list" where
  "DEFAULT_CALENDAR_WHITELIST =
     UrlWhitelist_new (Some
       [JString ''https://*.calendar.opentimestamps.org'',
        JString ''https://*.calendar.eternitywall.com'',
        JString ''https://*.calendar.catallaxy.com''])"

section \<open>esplora.js\<close>

definition PUBLIC_ESPLORA_URL :: string where
  "PUBLIC_ESPLORA_URL = ''https://blockstream.info/api''"

record Esplora =
  es_url :: string
  es_timeout :: nat

text \<open>The constructor: a missing, empty or zero option is falsy and takes the default.\<close>

definition Esplora_new :: "string option \<Rightarrow> nat option \<Rightarrow> Esplora" where
  "Esplora_new opt_url opt_timeout =
     \<lparr>es_url = (case opt_url of Some u \<Rightarrow> if u \<noteq> [] then u else PUBLIC_ESPLORA_URL | None \<Rightarrow> PUBLIC_ESPLORA_URL),
      es_timeout = (case opt_timeout of Some t \<Rightarrow> if t \<noteq> 0 then t else 1000 | None \<Rightarrow> 1000)\<rparr>"

text \<open>
  The \<open>catch\<close> callback shared by both methods. Its \<open>console.error\<close> line writes to the
  console only and is left out.
\<close>

definition esplora_catch :: "nat \<Rightarrow> js_value js_error \<Rightarrow> (js_value js_error, 'a) async" where
  "esplora_catch timeoutId err s =
     (let s' = clearTimeout timeoutId s;
          err' = (if error_name err = ''AbortError'' then Error_new ''Request timeout'' else err)
      in throw err' s')"

definition blockhash_chain :: "string transport \<Rightarrow> nat \<Rightarrow> (js_value js_error, string) async" where
  "blockhash_chain srv timeoutId =
     then_p
       (then_p (fetch srv (Some timeoutId))
          (\<lambda>response s.
             let s' = clearTimeout timeoutId s in
             if \<not> ok response then throw (Error_new (http_message response)) s'
             else read_body response (Some timeoutId) s'))
       (\<lambda>b. if b = [] then throw (URLError (JString ''Empty body'')) else fulfil b)"

definition Esplora_blockhash :: "Esplora \<Rightarrow> string transport \<Rightarrow> (js_value js_error, string) async" where
  "Esplora_blockhash es srv s =
     (let timeoutId = fst (setTimeout s);
          s1 = snd (setTimeout s)
      in catch_p (blockhash_chain srv timeoutId) (esplora_catch timeoutId) s1)"

record block_info =
  merkleroot :: js_value
  time :: js_value

definition block_chain :: "js_value transport \<Rightarrow> nat \<Rightarrow> (js_value js_error, block_info) async" where
  "block_chain srv timeoutId =
     then_p
       (then_p (fetch srv (Some timeoutId))
          (\<lambda>response s.
             let s' = clearTimeout timeoutId s in
             if \<not> ok response then throw (Error_new (http_message response)) s'
             else read_body response (Some timeoutId) s'))
       (\<lambda>b.
          if \<not> truthy b then throw (URLError (JString ''Empty body''))
          else if \<not> truthy (get_prop b ''merkle_root'') \<or> \<not> truthy (get_prop b ''timestamp'')
            then throw (URLError b)
          else fulfil \<lparr>merkleroot = get_prop b ''merkle_root'', time = get_prop b ''timestamp''\<rparr>)"

definition Esplora_block :: "Esplora \<Rightarrow> js_value transport \<Rightarrow> (js_value js_error, block_info) async" where
  "Esplora_block es srv s =
     (let timeoutId = fst (setTimeout s);
          s1 = snd (setTimeout s)
      in catch_p (block_chain srv timeoutId) (esplora_catch timeoutId) s1)"

section \<open>Vocabulary of the statements\<close>

text \<open>
  The errors the calendar methods classify where they detect them: the two classes thrown
  inside the callbacks, and the error the \<open>catch\<close> callback of the method makes of a
  timeout (\<open>timeout_error\<close>, a \<open>URLError\<close> in \<open>submit\<close> and a plain \<open>Error\<close> in
  \<open>getTimestamp\<close>).
\<close>

definition classified :: "'m js_error \<Rightarrow> 'm js_error \<Rightarrow> bool" where
  "classified timeout_error e =
     (case e of
        ExceededSizeError m \<Rightarrow> True
      | CommitmentNotFoundError m \<Rightarrow> True
      | _ \<Rightarrow> e = timeout_error)"

section \<open>Unfolding rules and small facts\<close>

lemmas promise_defs = then_p_def catch_p_def throw_def fulfil_def fetch_def read_body_def
  wait_for_abort_def
  clear_if_set_def arm_if_configured_def setTimeout_def clearTimeout_def expire_def decode_def
  Error_new_def

lemmas calendar_defs = RemoteCalendar_submit_def submit_chain_def submit_catch_def
  RemoteCalendar_getTimestamp_def getTimestamp_chain_def getTimestamp_catch_def

lemmas esplora_defs = Esplora_blockhash_def blockhash_chain_def Esplora_block_def block_chain_def
  esplora_catch_def

lemma ok_not_404: "ok r \<Longrightarrow> status r \<noteq> 404"
  by (simp add: ok_def)

lemma http_message_nonempty: "http_message r \<noteq> []"
  by (simp add: http_message_def)

lemma http_message_500:
  "http_message \<lparr>status = 500, statusText = ''Internal Server Error'', body = b\<rparr>
     = ''HTTP 500: Internal Server Error''"
  by (simp add: http_message_def string_of_nat.simps)

section \<open>The size guard\<close>

text \<open>
  C1, as stated: every exchange fails with \<open>ExceededSizeError\<close> when the body is longer
  than 10,000 bytes, whatever the status. The code does otherwise twice.
  \<open>Esplora.blockhash\<close> has no size check: a 10,001-character body under status 200 is
  returned. \<open>RemoteCalendar.submit\<close> tests \<open>response.ok\<close> before it reads the body:
  under status 500 the call fails with the \<open>URLError\<close> of the status.
\<close>

theorem size_guard_counterexample:
  "fst (Esplora_blockhash (Esplora_new None None)
          (Responds \<lparr>status = 200, statusText = ''OK'', body = BodyRead (replicate 10001 (CHR ''0''))\<rparr>)
          \<lparr>counter = 0, pending = []\<rparr>)
     = Fulfilled (replicate 10001 (CHR ''0''))
   \<and> fst (RemoteCalendar_submit (RemoteCalendar_new ''https://a.pool.opentimestamps.org'' False)
          (curry (Inr \<circ> fst)) []
          (Responds \<lparr>status = 500, statusText = ''Internal Server Error'', body = BodyRead (replicate 10001 0)\<rparr>)
          \<lparr>counter = 0, pending = []\<rparr>)
     = Rejected (URLError ''HTTP 500: Internal Server Error'')"
  by (simp add: esplora_defs calendar_defs promise_defs Let_def ok_def RemoteCalendar_new_def
      http_message_500)

text \<open>
  C1, amended: for \<open>submit\<close> and \<open>getTimestamp\<close>, when the server answers with a
  success status and the body read is longer than 10,000 bytes, the call fails with
  \<open>ExceededSizeError\<close>, whatever the decoder would make of the body. On a non-success
  status \<open>submit\<close> fails with the error of the status, whatever the body.
  \<open>Esplora.blockhash\<close> returns a non-empty body of any length.
\<close>

theorem size_guard_calendar:
  "(ok r \<and> body r = BodyRead b \<and> length b > 10000 \<longrightarrow>
      fst (RemoteCalendar_submit rc deserialize digest (Responds r) s)
        = Rejected (ExceededSizeError ''Calendar response exceeded size limit'')
    \<and> fst (RemoteCalendar_getTimestamp rc deserialize commitment (Responds r) s)
        = Rejected (ExceededSizeError ''Calendar response exceeded size limit''))
   \<and> (\<not> ok r' \<longrightarrow>
      fst (RemoteCalendar_submit rc deserialize digest (Responds r') s)
        = Rejected (URLError (http_message r')))
   \<and> (ok r'' \<and> body r'' = BodyRead t \<and> t \<noteq> [] \<longrightarrow>
      fst (Esplora_blockhash es (Responds r'') s) = Fulfilled t)"
  by (auto simp add: calendar_defs esplora_defs promise_defs Let_def ok_not_404 split: option.splits)

theorem size_guard_calendar_witness:
  "fst (RemoteCalendar_submit (RemoteCalendar_new ''https://a.pool.opentimestamps.org'' False)
          (\<lambda>b d. Inr b) [1, 2]
          (Responds \<lparr>status = 200, statusText = ''OK'', body = BodyRead (replicate 10001 0)\<rparr>)
          \<lparr>counter = 0, pending = []\<rparr>)
     = Rejected (ExceededSizeError ''Calendar response exceeded size limit'')
   \<and> fst (RemoteCalendar_getTimestamp (RemoteCalendar_new ''https://a.pool.opentimestamps.org'' False)
          (\<lambda>b d. Inr b) [1, 2]
          (Responds \<lparr>status = 200, statusText = ''OK'', body = BodyRead (replicate 10001 0)\<rparr>)
          \<lparr>counter = 0, pending = []\<rparr>)
     = Rejected (ExceededSizeError ''Calendar response exceeded size limit'')
   \<and> fst (RemoteCalendar_submit (RemoteCalendar_new ''https://a.pool.opentimestamps.org'' False)
          (\<lambda>b d. Inr b) [1, 2]
          (Responds \<lparr>status = 500, statusText = ''Internal Server Error'', body = BodyRead (replicate 10001 0)\<rparr>)
          \<lparr>counter = 0, pending = []\<rparr>)
     = Rejected (URLError ''HTTP 500: Internal Server Error'')
   \<and> fst (Esplora_blockhash (Esplora_new None None)
          (Responds \<lparr>status = 200, statusText = ''OK'', body = BodyRead (replicate 10001 (CHR ''0''))\<rparr>)
          \<lparr>counter = 0, pending = []\<rparr>)
     = Fulfilled (replicate 10001 (CHR ''0''))"
  using size_guard_calendar
    [of "\<lparr>status = 200, statusText = ''OK'', body = BodyRead (replicate 10001 0)\<rparr>"
        "replicate 10001 0"
        "RemoteCalendar_new ''https://a.pool.opentimestamps.org'' False"
        "\<lambda>b d. Inr b" "[1, 2]" "\<lparr>counter = 0, pending = []\<rparr>" "[1, 2]"
        "\<lparr>status = 500, statusText = ''Internal Server Error'', body = BodyRead (replicate 10001 0)\<rparr>"
        "\<lparr>status = 200, statusText = ''OK'', body = BodyRead (replicate 10001 (CHR ''0''))\<rparr>"
        "replicate 10001 (CHR ''0'')" "Esplora_new None None"]
  by (simp add: ok_def http_message_500)

section \<open>The 404 case of getTimestamp\<close>

text \<open>
  C2: whatever the commitment, the calendar's configuration, the decoder and the rest of
  the response, \<open>getTimestamp\<close> against a response of status 404 rejects with the
  \<open>CommitmentNotFoundError\<close> thrown in the first callback: the \<open>catch\<close> callback passes
  it on as it is. Every other non-success status rejects with a plain \<open>Error\<close>.
\<close>

theorem getTimestamp_404_commitment_not_found:
  "fst (RemoteCalendar_getTimestamp rc deserialize commitment
          (Responds \<lparr>status = 404, statusText = t, body = b\<rparr>) s)
     = Rejected (CommitmentNotFoundError ''Commitment not found'')
   \<and> (\<not> ok r \<and> status r \<noteq> 404 \<longrightarrow>
        fst (RemoteCalendar_getTimestamp rc deserialize commitment (Responds r) s)
          = Rejected (OtherError ''Error'' (http_message r)))"
  by (simp add: calendar_defs promise_defs Let_def message_or_toString_def http_message_nonempty
      split: option.splits)

theorem getTimestamp_404_commitment_not_found_witness:
  "fst (RemoteCalendar_getTimestamp (RemoteCalendar_new ''https://a.pool.opentimestamps.org'' False)
          (\<lambda>b d. Inr b) [171, 205]
          (Responds \<lparr>status = 404, statusText = ''Not Found'', body = BodyRead []\<rparr>)
          \<lparr>counter = 0, pending = []\<rparr>)
     = Rejected (CommitmentNotFoundError ''Commitment not found'')
   \<and> fst (RemoteCalendar_getTimestamp (RemoteCalendar_new ''https://a.pool.opentimestamps.org'' False)
          (\<lambda>b d. Inr b) [171, 205]
          (Responds \<lparr>status = 500, statusText = ''Internal Server Error'', body = BodyRead []\<rparr>)
          \<lparr>counter = 0, pending = []\<rparr>)
     = Rejected (OtherError ''Error'' ''HTTP 500: Internal Server Error'')"
  using getTimestamp_404_commitment_not_found
    [of "RemoteCalendar_new ''https://a.pool.opentimestamps.org'' False" "\<lambda>b d. Inr b" "[171, 205]"
        "''Not Found''" "BodyRead []" "\<lparr>counter = 0, pending = []\<rparr>"
        "\<lparr>status = 500, statusText = ''Internal Server Error'', body = BodyRead []\<rparr>"]
  by (simp add: ok_def http_message_500)

section \<open>Timeouts and timers\<close>

lemma calendar_arms:
  "rc_timeout rc = Some ms \<Longrightarrow> ms \<noteq> 0 \<Longrightarrow>
   arm_if_configured (rc_timeout rc) s = (Some (fst (setTimeout s)), snd (setTimeout s))"
  by (simp add: arm_if_configured_def)

lemma setTimeout_pending: "fst (setTimeout s) \<in> set (pending (snd (setTimeout s)))"
  by (simp add: setTimeout_def)

lemma submit_timeout:
  "rc_timeout rc = Some ms \<Longrightarrow> ms \<noteq> 0 \<Longrightarrow>
   fst (RemoteCalendar_submit rc d dg (NoResponse m) s) = Rejected (URLError ''Request timeout'')"
  by (simp add: calendar_defs promise_defs Let_def)

lemma getTimestamp_timeout:
  "rc_timeout rc = Some ms \<Longrightarrow> ms \<noteq> 0 \<Longrightarrow>
   fst (RemoteCalendar_getTimestamp rc d dg (NoResponse m) s) = Rejected (Error_new ''Request timeout'')"
  by (simp add: calendar_defs promise_defs Let_def)

lemma esplora_timeout:
  "fst (Esplora_blockhash es (NoResponse m) s) = Rejected (Error_new ''Request timeout'')"
  "fst (Esplora_block es (NoResponse m) s) = Rejected (Error_new ''Request timeout'')"
  by (simp_all add: esplora_defs promise_defs Let_def)

lemma calendar_without_timer:
  "rc_timeout rc = None \<or> rc_timeout rc = Some 0 \<Longrightarrow>
   fst (RemoteCalendar_submit rc d dg (NoResponse m) s) = Pending
   \<and> fst (RemoteCalendar_getTimestamp rc d dg (NoResponse m) s) = Pending"
  by (auto simp add: calendar_defs promise_defs Let_def)

lemma calendar_stalled_body:
  "ok r \<Longrightarrow> body r = BodyStalls m \<Longrightarrow>
   fst (RemoteCalendar_submit rc d dg (Responds r) s) = Pending
   \<and> fst (RemoteCalendar_getTimestamp rc d dg (Responds r) s) = Pending"
  by (auto simp add: calendar_defs promise_defs Let_def ok_not_404 split: option.splits)

lemma blockhash_stalled_body:
  "ok r \<Longrightarrow> body r = BodyStalls m \<Longrightarrow> fst (Esplora_blockhash es (Responds r) s) = Pending"
  by (simp add: esplora_defs promise_defs Let_def)

lemma block_stalled_body:
  "ok r \<Longrightarrow> body r = BodyStalls m \<Longrightarrow> fst (Esplora_block es (Responds r) s) = Pending"
  by (simp add: esplora_defs promise_defs Let_def)

lemma submit_timer:
  "rc_timeout rc = Some ms \<Longrightarrow> ms \<noteq> 0 \<Longrightarrow>
   pending (snd (RemoteCalendar_submit rc d dg srv s)) = removeAll (fst (setTimeout s)) (pending s)"
  by (cases srv)
     (auto simp add: calendar_defs promise_defs Let_def split: body_read.splits sum.splits prod.splits)

lemma getTimestamp_timer:
  "rc_timeout rc = Some ms \<Longrightarrow> ms \<noteq> 0 \<Longrightarrow>
   pending (snd (RemoteCalendar_getTimestamp rc d dg srv s)) = removeAll (fst (setTimeout s)) (pending s)"
  by (cases srv)
     (auto simp add: calendar_defs promise_defs Let_def split: body_read.splits sum.splits prod.splits)

lemma blockhash_timer:
  "pending (snd (Esplora_blockhash es srv s)) = removeAll (fst (setTimeout s)) (pending s)"
  by (cases srv)
     (auto simp add: esplora_defs promise_defs Let_def split: body_read.splits)

lemma block_timer:
  "pending (snd (Esplora_block es srv s)) = removeAll (fst (setTimeout s)) (pending s)"
  by (cases srv)
     (auto simp add: esplora_defs promise_defs Let_def split: body_read.splits)

lemma submit_never_abort:
  "fst (RemoteCalendar_submit rc d dg srv s) = Rejected e \<Longrightarrow> error_name e \<noteq> ''AbortError''"
  by (cases srv)
     (auto simp add: calendar_defs promise_defs Let_def
           split: body_read.splits sum.splits prod.splits option.splits if_splits)

lemma getTimestamp_never_abort:
  "fst (RemoteCalendar_getTimestamp rc d dg srv s) = Rejected e \<Longrightarrow> error_name e \<noteq> ''AbortError''"
  by (cases srv)
     (auto simp add: calendar_defs promise_defs Let_def
           split: body_read.splits sum.splits prod.splits option.splits if_splits)

lemma blockhash_never_abort:
  "fst (Esplora_blockhash es srv s) = Rejected e \<Longrightarrow> error_name e \<noteq> ''AbortError''"
  by (cases srv)
     (auto simp add: esplora_defs promise_defs Let_def split: body_read.splits if_splits)

lemma block_never_abort:
  "fst (Esplora_block es srv s) = Rejected e \<Longrightarrow> error_name e \<noteq> ''AbortError''"
  by (cases srv)
     (auto simp add: esplora_defs promise_defs Let_def split: body_read.splits if_splits)

text \<open>
  C3, as stated: every exchange whose server does not respond within the configured
  timeout fails with the timeout error. The timer bounds the wait for the response
  headers only: the first callback clears it before the body is read. A server that sends
  the headers of a 200 response and then never completes the body leaves \<open>submit\<close>, with
  a timeout of 5000 configured, and \<open>blockhash\<close> pending for ever: no timer is left to
  abort the read, and the call never fails.
\<close>

theorem timeout_stalled_body_counterexample:
  "fst (RemoteCalendar_submit
          ((RemoteCalendar_new ''https://a.pool.opentimestamps.org'' False)\<lparr>rc_timeout := Some 5000\<rparr>)
          (curry (Inr \<circ> fst)) []
          (Responds \<lparr>status = 200, statusText = ''OK'', body = BodyStalls ''This operation was aborted''\<rparr>)
          \<lparr>counter = 0, pending = []\<rparr>)
     = Pending
   \<and> pending (snd (RemoteCalendar_submit
          ((RemoteCalendar_new ''https://a.pool.opentimestamps.org'' False)\<lparr>rc_timeout := Some 5000\<rparr>)
          (curry (Inr \<circ> fst)) []
          (Responds \<lparr>status = 200, statusText = ''OK'', body = BodyStalls ''This operation was aborted''\<rparr>)
          \<lparr>counter = 0, pending = []\<rparr>))
     = []
   \<and> fst (Esplora_blockhash (Esplora_new None None)
          (Responds \<lparr>status = 200, statusText = ''OK'', body = BodyStalls ''This operation was aborted''\<rparr>)
          \<lparr>counter = 0, pending = []\<rparr>)
     = Pending
   \<and> pending (snd (Esplora_blockhash (Esplora_new None None)
          (Responds \<lparr>status = 200, statusText = ''OK'', body = BodyStalls ''This operation was aborted''\<rparr>)
          \<lparr>counter = 0, pending = []\<rparr>))
     = []"
  by (simp add: esplora_defs calendar_defs promise_defs Let_def ok_def RemoteCalendar_new_def)

text \<open>
  C3, amended. The explorer methods arm a timer at the start of every call, the calendar
  methods when a non-zero \<open>timeout\<close> is configured; the timer is pending while the
  request waits for the response headers. If neither headers nor a failure arrive before
  it expires, the call rejects with the error its \<open>catch\<close> callback makes of the abort:
  a \<open>URLError\<close> of message \<open>Request timeout\<close> in \<open>submit\<close>, a plain \<open>Error\<close> of that
  message in \<open>getTimestamp\<close>, \<open>blockhash\<close> and \<open>block\<close> (the source has no error class
  of its own for timeouts). A calendar call with no timeout configured stays pending.
  Whatever the server does, the timer the call armed is not pending afterwards and no
  other timer is touched: it is cleared when the headers arrive or the failure surfaces.
  The read of the body is not bounded: after the headers of a successful response, a
  body that never completes leaves the call pending. No exchange rejects with the
  platform's \<open>AbortError\<close>.
\<close>

theorem timeout_until_headers_timer_disarmed:
  "(rc_timeout rc = Some ms \<and> ms \<noteq> 0 \<longrightarrow>
      arm_if_configured (rc_timeout rc) s = (Some (fst (setTimeout s)), snd (setTimeout s))
    \<and> fst (RemoteCalendar_submit rc d dg (NoResponse m) s) = Rejected (URLError ''Request timeout'')
    \<and> fst (RemoteCalendar_getTimestamp rc d dg (NoResponse m) s) = Rejected (Error_new ''Request timeout'')
    \<and> pending (snd (RemoteCalendar_submit rc d dg srv s)) = removeAll (fst (setTimeout s)) (pending s)
    \<and> pending (snd (RemoteCalendar_getTimestamp rc d dg srv s)) = removeAll (fst (setTimeout s)) (pending s))
   \<and> (rc_timeout rc' = None \<or> rc_timeout rc' = Some 0 \<longrightarrow>
      fst (RemoteCalendar_submit rc' d dg (NoResponse m) s) = Pending
    \<and> fst (RemoteCalendar_getTimestamp rc' d dg (NoResponse m) s) = Pending)
   \<and> fst (setTimeout s) \<in> set (pending (snd (setTimeout s)))
   \<and> fst (Esplora_blockhash es (NoResponse m) s) = Rejected (Error_new ''Request timeout'')
   \<and> fst (Esplora_block es (NoResponse m) s) = Rejected (Error_new ''Request timeout'')
   \<and> pending (snd (Esplora_blockhash es srv1 s)) = removeAll (fst (setTimeout s)) (pending s)
   \<and> pending (snd (Esplora_block es srv2 s)) = removeAll (fst (setTimeout s)) (pending s)
   \<and> (ok r \<and> body r = BodyStalls m \<longrightarrow>
      fst (RemoteCalendar_submit rc d dg (Responds r) s) = Pending
    \<and> fst (RemoteCalendar_getTimestamp rc d dg (Responds r) s) = Pending)
   \<and> (ok r1 \<and> body r1 = BodyStalls m \<longrightarrow> fst (Esplora_blockhash es (Responds r1) s) = Pending)
   \<and> (ok r2 \<and> body r2 = BodyStalls m \<longrightarrow> fst (Esplora_block es (Responds r2) s) = Pending)
   \<and> fst (RemoteCalendar_submit rc d dg srv s) \<noteq> Rejected (OtherError ''AbortError'' m')
   \<and> fst (RemoteCalendar_getTimestamp rc d dg srv s) \<noteq> Rejected (OtherError ''AbortError'' m')
   \<and> fst (Esplora_blockhash es srv1 s) \<noteq> Rejected (OtherError ''AbortError'' m')
   \<and> fst (Esplora_block es srv2 s) \<noteq> Rejected (OtherError ''AbortError'' m')"
  using calendar_arms [of rc ms s] setTimeout_pending [of s]
    submit_timeout [of rc ms d dg m s] getTimestamp_timeout [of rc ms d dg m s]
    calendar_without_timer [of rc' d dg m s]
    esplora_timeout [of es m s] submit_timer [of rc ms d dg srv s]
    getTimestamp_timer [of rc ms d dg srv s] blockhash_timer [of es srv1 s] block_timer [of es srv2 s]
    calendar_stalled_body [of r m rc d dg s] blockhash_stalled_body [of r1 m es s]
    block_stalled_body [of r2 m es s]
    submit_never_abort [of rc d dg srv s "OtherError ''AbortError'' m'"]
    getTimestamp_never_abort [of rc d dg srv s "OtherError ''AbortError'' m'"]
    blockhash_never_abort [of es srv1 s "OtherError ''AbortError'' m'"]
    block_never_abort [of es srv2 s "OtherError ''AbortError'' m'"]
  by auto

theorem timeout_until_headers_timer_disarmed_witness:
  "arm_if_configured (Some 5000) \<lparr>counter = 3, pending = [2]\<rparr>
     = (Some 4, \<lparr>counter = 4, pending = [4, 2]\<rparr>)
   \<and> fst (RemoteCalendar_submit
          ((RemoteCalendar_new ''https://a.pool.opentimestamps.org'' False)\<lparr>rc_timeout := Some 5000\<rparr>)
          (\<lambda>b d. Inr b) [1, 2] (NoResponse ''This operation was aborted'') \<lparr>counter = 3, pending = [2]\<rparr>)
     = Rejected (URLError ''Request timeout'')
   \<and> fst (RemoteCalendar_getTimestamp
          ((RemoteCalendar_new ''https://a.pool.opentimestamps.org'' False)\<lparr>rc_timeout := Some 5000\<rparr>)
          (\<lambda>b d. Inr b) [1, 2] (NoResponse ''This operation was aborted'') \<lparr>counter = 3, pending = [2]\<rparr>)
     = Rejected (OtherError ''Error'' ''Request timeout'')
   \<and> pending (snd (RemoteCalendar_submit
          ((RemoteCalendar_new ''https://a.pool.opentimestamps.org'' False)\<lparr>rc_timeout := Some 5000\<rparr>)
          (\<lambda>b d. Inr b) [1, 2] (NoResponse ''This operation was aborted'') \<lparr>counter = 3, pending = [2]\<rparr>))
     = [2]
   \<and> pending (snd (RemoteCalendar_getTimestamp
          ((RemoteCalendar_new ''https://a.pool.opentimestamps.org'' False)\<lparr>rc_timeout := Some 5000\<rparr>)
          (\<lambda>b d. Inr b) [1, 2] (NoResponse ''This operation was aborted'') \<lparr>counter = 3, pending = [2]\<rparr>))
     = [2]
   \<and> fst (RemoteCalendar_submit (RemoteCalendar_new ''https://a.pool.opentimestamps.org'' False)
          (\<lambda>b d. Inr b) [1, 2] (NoResponse ''This operation was aborted'') \<lparr>counter = 3, pending = [2]\<rparr>)
     = Pending
   \<and> fst (RemoteCalendar_getTimestamp (RemoteCalendar_new ''https://a.pool.opentimestamps.org'' False)
          (\<lambda>b d. Inr b) [1, 2] (NoResponse ''This operation was aborted'') \<lparr>counter = 3, pending = [2]\<rparr>)
     = Pending
   \<and> fst (Esplora_blockhash (Esplora_new None None) (NoResponse ''This operation was aborted'')
          \<lparr>counter = 3, pending = [2]\<rparr>)
     = Rejected (OtherError ''Error'' ''Request timeout'')
   \<and> fst (Esplora_block (Esplora_new None None) (NoResponse ''This operation was aborted'')
          \<lparr>counter = 3, pending = [2]\<rparr>)
     = Rejected (OtherError ''Error'' ''Request timeout'')
   \<and> pending (snd (Esplora_blockhash (Esplora_new None None) (NoResponse ''This operation was aborted'')
          \<lparr>counter = 3, pending = [2]\<rparr>))
     = [2]
   \<and> pending (snd (Esplora_block (Esplora_new None None) (NoResponse ''This operation was aborted'')
          \<lparr>counter = 3, pending = [2]\<rparr>))
     = [2]
   \<and> fst (RemoteCalendar_submit
          ((RemoteCalendar_new ''https://a.pool.opentimestamps.org'' False)\<lparr>rc_timeout := Some 5000\<rparr>)
          (\<lambda>b d. Inr b) [1, 2]
          (Responds \<lparr>status = 200, statusText = ''OK'', body = BodyStalls ''This operation was aborted''\<rparr>)
          \<lparr>counter = 3, pending = [2]\<rparr>)
     = Pending
   \<and> fst (RemoteCalendar_getTimestamp
          ((RemoteCalendar_new ''https://a.pool.opentimestamps.org'' False)\<lparr>rc_timeout := Some 5000\<rparr>)
          (\<lambda>b d. Inr b) [1, 2]
          (Responds \<lparr>status = 200, statusText = ''OK'', body = BodyStalls ''This operation was aborted''\<rparr>)
          \<lparr>counter = 3, pending = [2]\<rparr>)
     = Pending
   \<and> fst (Esplora_blockhash (Esplora_new None None)
          (Responds \<lparr>status = 200, statusText = ''OK'', body = BodyStalls ''This operation was aborted''\<rparr>)
          \<lparr>counter = 3, pending = [2]\<rparr>)
     = Pending
   \<and> fst (Esplora_block (Esplora_new None None)
          (Responds \<lparr>status = 200, statusText = ''OK'', body = BodyStalls ''This operation was aborted''\<rparr>)
          \<lparr>counter = 3, pending = [2]\<rparr>)
     = Pending"
  using timeout_until_headers_timer_disarmed
    [of "(RemoteCalendar_new ''https://a.pool.opentimestamps.org'' False)\<lparr>rc_timeout := Some 5000\<rparr>"
        5000 "\<lparr>counter = 3, pending = [2]\<rparr>" "\<lambda>b d. Inr b" "[1, 2]"
        "''This operation was aborted''"
        "NoResponse ''This operation was aborted''"
        "RemoteCalendar_new ''https://a.pool.opentimestamps.org'' False"
        "Esplora_new None None"
        "NoResponse ''This operation was aborted''" "NoResponse ''This operation was aborted''"
        "\<lparr>status = 200, statusText = ''OK'', body = BodyStalls ''This operation was aborted''\<rparr>"
        "\<lparr>status = 200, statusText = ''OK'', body = BodyStalls ''This operation was aborted''\<rparr>"
        "\<lparr>status = 200, statusText = ''OK'', body = BodyStalls ''This operation was aborted''\<rparr>"]
  by (simp add: RemoteCalendar_new_def setTimeout_def Error_new_def ok_def)

section \<open>What the catch callbacks pass on\<close>

lemma submit_rethrows:
  "fst (submit_chain d dg srv t s1) = Rejected e \<Longrightarrow> classified (URLError ''Request timeout'') e \<Longrightarrow>
   fst (catch_p (submit_chain d dg srv t) (submit_catch t) s1) = Rejected e"
  by (cases srv)
     (auto simp add: calendar_defs promise_defs Let_def classified_def
           split: body_read.splits sum.splits prod.splits option.splits if_splits js_error.splits)

lemma getTimestamp_rethrows:
  "fst (getTimestamp_chain d dg srv t s1) = Rejected e \<Longrightarrow> classified (Error_new ''Request timeout'') e \<Longrightarrow>
   fst (catch_p (getTimestamp_chain d dg srv t) (getTimestamp_catch t) s1) = Rejected e"
  by (cases srv)
     (auto simp add: calendar_defs promise_defs Let_def classified_def message_or_toString_def
           split: body_read.splits sum.splits prod.splits option.splits if_splits js_error.splits)

lemma esplora_rethrows:
  "fst (p s1) = Rejected e \<Longrightarrow> error_name e \<noteq> ''AbortError'' \<Longrightarrow>
   fst (catch_p p (esplora_catch t) s1) = Rejected e"
  by (cases "p s1") (auto simp add: esplora_defs promise_defs Let_def)

text \<open>
  C8: in every exchange, an error that reaches the \<open>catch\<close> callback already classified
  is the error the caller gets. For the calendar methods: an \<open>ExceededSizeError\<close>, a
  \<open>CommitmentNotFoundError\<close> or the timeout error of the method, rejected by the callbacks
  before the \<open>catch\<close>. The explorer methods pass on every error whose name is not
  \<open>AbortError\<close>, which all of these are.
\<close>

theorem classified_errors_rethrown:
  "(fst (submit_chain d dg srv (fst (arm_if_configured (rc_timeout rc) s))
           (snd (arm_if_configured (rc_timeout rc) s))) = Rejected e
      \<and> classified (URLError ''Request timeout'') e
      \<longrightarrow> fst (RemoteCalendar_submit rc d dg srv s) = Rejected e)
   \<and> (fst (getTimestamp_chain d dg srv' (fst (arm_if_configured (rc_timeout rc) s))
           (snd (arm_if_configured (rc_timeout rc) s))) = Rejected e'
      \<and> classified (Error_new ''Request timeout'') e'
      \<longrightarrow> fst (RemoteCalendar_getTimestamp rc d dg srv' s) = Rejected e')
   \<and> (fst (blockhash_chain srv1 (fst (setTimeout s)) (snd (setTimeout s))) = Rejected e1
      \<and> error_name e1 \<noteq> ''AbortError''
      \<longrightarrow> fst (Esplora_blockhash es srv1 s) = Rejected e1)
   \<and> (fst (block_chain srv2 (fst (setTimeout s)) (snd (setTimeout s))) = Rejected e2
      \<and> error_name e2 \<noteq> ''AbortError''
      \<longrightarrow> fst (Esplora_block es srv2 s) = Rejected e2)"
  using submit_rethrows [of d dg srv "fst (arm_if_configured (rc_timeout rc) s)"
      "snd (arm_if_configured (rc_timeout rc) s)" e]
    getTimestamp_rethrows [of d dg srv' "fst (arm_if_configured (rc_timeout rc) s)"
      "snd (arm_if_configured (rc_timeout rc) s)" e']
    esplora_rethrows [of "blockhash_chain srv1 (fst (setTimeout s))" "snd (setTimeout s)" e1 "fst (setTimeout s)"]
    esplora_rethrows [of "block_chain srv2 (fst (setTimeout s))" "snd (setTimeout s)" e2 "fst (setTimeout s)"]
  by (simp add: RemoteCalendar_submit_def RemoteCalendar_getTimestamp_def Esplora_blockhash_def
      Esplora_block_def Let_def)

theorem classified_errors_rethrown_witness:
  "fst (RemoteCalendar_submit (RemoteCalendar_new ''https://a.pool.opentimestamps.org'' False)
          (\<lambda>b d. Inr b) [1, 2]
          (Responds \<lparr>status = 200, statusText = ''OK'', body = BodyRead (replicate 10001 0)\<rparr>)
          \<lparr>counter = 0, pending = []\<rparr>)
     = Rejected (ExceededSizeError ''Calendar response exceeded size limit'')
   \<and> fst (RemoteCalendar_getTimestamp (RemoteCalendar_new ''https://a.pool.opentimestamps.org'' False)
          (\<lambda>b d. Inr b) [1, 2]
          (Responds \<lparr>status = 404, statusText = ''Not Found'', body = BodyRead []\<rparr>)
          \<lparr>counter = 0, pending = []\<rparr>)
     = Rejected (CommitmentNotFoundError ''Commitment not found'')
   \<and> fst (Esplora_blockhash (Esplora_new None None)
          (Responds \<lparr>status = 200, statusText = ''OK'', body = BodyRead []\<rparr>)
          \<lparr>counter = 0, pending = []\<rparr>)
     = Rejected (URLError (JString ''Empty body''))
   \<and> fst (Esplora_block (Esplora_new None None)
          (Responds \<lparr>status = 200, statusText = ''OK'', body = BodyRead JNull\<rparr>)
          \<lparr>counter = 0, pending = []\<rparr>)
     = Rejected (URLError (JString ''Empty body''))"
  using classified_errors_rethrown
    [of "\<lambda>b d. Inr b" "[1, 2]"
        "Responds \<lparr>status = 200, statusText = ''OK'', body = BodyRead (replicate 10001 0)\<rparr>"
        "RemoteCalendar_new ''https://a.pool.opentimestamps.org'' False"
        "\<lparr>counter = 0, pending = []\<rparr>"
        "ExceededSizeError ''Calendar response exceeded size limit''"
        "Responds \<lparr>status = 404, statusText = ''Not Found'', body = BodyRead []\<rparr>"
        "CommitmentNotFoundError ''Commitment not found''"
        "Responds \<lparr>status = 200, statusText = ''OK'', body = BodyRead []\<rparr>"
        "URLError (JString ''Empty body'')"
        "Esplora_new None None"
        "Responds \<lparr>status = 200, statusText = ''OK'', body = BodyRead JNull\<rparr>"
        "URLError (JString ''Empty body'')"]
  by (simp add: submit_chain_def getTimestamp_chain_def blockhash_chain_def block_chain_def
      promise_defs classified_def ok_def RemoteCalendar_new_def Let_def)

section \<open>Transport failures\<close>

text \<open>
  C9, as stated: no exchange lets the platform's own error reach the caller. The explorer
  methods do: their \<open>catch\<close> callback rethrows what it caught, so a failed connection
  rejects \<open>blockhash\<close> with the platform's \<open>TypeError\<close> itself.
\<close>

theorem network_error_counterexample:
  "fst (Esplora_blockhash (Esplora_new None None) (ConnectionFails ''TypeError'' ''fetch failed'')
          \<lparr>counter = 0, pending = []\<rparr>)
     = Rejected (OtherError ''TypeError'' ''fetch failed'')"
  by (simp add: esplora_defs promise_defs Let_def)

text \<open>
  C9, amended: in \<open>submit\<close> and \<open>getTimestamp\<close>, a failure of the transport that is not
  an abort, in the connection or while the body is read, is replaced by a new error
  that carries the message of the failure (its name when the message is empty): a
  \<open>URLError\<close> in \<open>submit\<close>, a plain \<open>Error\<close> in \<open>getTimestamp\<close>. \<open>blockhash\<close> and
  \<open>block\<close> reject with such a failure, of the connection or of the read of the body,
  as the platform raised it.
\<close>

theorem transport_failure_wrapped_by_calendar:
  "(n \<noteq> ''AbortError'' \<longrightarrow>
      fst (RemoteCalendar_submit rc d dg (ConnectionFails n m) s)
        = Rejected (URLError (if m \<noteq> [] then m else n))
    \<and> fst (RemoteCalendar_getTimestamp rc d dg (ConnectionFails n m) s)
        = Rejected (OtherError ''Error'' (if m \<noteq> [] then m else n))
    \<and> fst (Esplora_blockhash es (ConnectionFails n m) s) = Rejected (OtherError n m)
    \<and> fst (Esplora_block es (ConnectionFails n m) s) = Rejected (OtherError n m))
   \<and> (n \<noteq> ''AbortError'' \<and> ok r \<and> body r = BodyFails n m \<longrightarrow>
      fst (RemoteCalendar_submit rc d dg (Responds r) s)
        = Rejected (URLError (if m \<noteq> [] then m else n))
    \<and> fst (RemoteCalendar_getTimestamp rc d dg (Responds r) s)
        = Rejected (OtherError ''Error'' (if m \<noteq> [] then m else n)))
   \<and> (n \<noteq> ''AbortError'' \<and> ok r1 \<and> body r1 = BodyFails n m \<longrightarrow>
      fst (Esplora_blockhash es (Responds r1) s) = Rejected (OtherError n m))
   \<and> (n \<noteq> ''AbortError'' \<and> ok r2 \<and> body r2 = BodyFails n m \<longrightarrow>
      fst (Esplora_block es (Responds r2) s) = Rejected (OtherError n m))"
  by (auto simp add: calendar_defs esplora_defs promise_defs Let_def message_or_toString_def
        error_toString_def ok_not_404 split: option.splits)

theorem transport_failure_wrapped_by_calendar_witness:
  "fst (RemoteCalendar_submit (RemoteCalendar_new ''https://a.pool.opentimestamps.org'' False)
          (\<lambda>b d. Inr b) [1, 2] (ConnectionFails ''TypeError'' ''fetch failed'') \<lparr>counter = 0, pending = []\<rparr>)
     = Rejected (URLError ''fetch failed'')
   \<and> fst (RemoteCalendar_getTimestamp (RemoteCalendar_new ''https://a.pool.opentimestamps.org'' False)
          (\<lambda>b d. Inr b) [1, 2] (ConnectionFails ''TypeError'' ''fetch failed'') \<lparr>counter = 0, pending = []\<rparr>)
     = Rejected (OtherError ''Error'' ''fetch failed'')
   \<and> fst (Esplora_block (Esplora_new None None) (ConnectionFails ''TypeError'' ''fetch failed'')
          \<lparr>counter = 0, pending = []\<rparr>)
     = Rejected (OtherError ''TypeError'' ''fetch failed'')
   \<and> fst (RemoteCalendar_submit (RemoteCalendar_new ''https://a.pool.opentimestamps.org'' False)
          (\<lambda>b d. Inr b) [1, 2]
          (Responds \<lparr>status = 200, statusText = ''OK'', body = BodyFails ''TypeError'' ''fetch failed''\<rparr>)
          \<lparr>counter = 0, pending = []\<rparr>)
     = Rejected (URLError ''fetch failed'')
   \<and> fst (Esplora_blockhash (Esplora_new None None)
          (Responds \<lparr>status = 200, statusText = ''OK'', body = BodyFails ''TypeError'' ''fetch failed''\<rparr>)
          \<lparr>counter = 0, pending = []\<rparr>)
     = Rejected (OtherError ''TypeError'' ''fetch failed'')
   \<and> fst (Esplora_block (Esplora_new None None)
          (Responds \<lparr>status = 200, statusText = ''OK'', body = BodyFails ''TypeError'' ''fetch failed''\<rparr>)
          \<lparr>counter = 0, pending = []\<rparr>)
     = Rejected (OtherError ''TypeError'' ''fetch failed'')"
  using transport_failure_wrapped_by_calendar
    [of "''TypeError''" "RemoteCalendar_new ''https://a.pool.opentimestamps.org'' False"
        "\<lambda>b d. Inr b" "[1, 2]" "''fetch failed''" "\<lparr>counter = 0, pending = []\<rparr>"
        "Esplora_new None None"
        "\<lparr>status = 200, statusText = ''OK'', body = BodyFails ''TypeError'' ''fetch failed''\<rparr>"
        "\<lparr>status = 200, statusText = ''OK'', body = BodyFails ''TypeError'' ''fetch failed''\<rparr>"
        "\<lparr>status = 200, statusText = ''OK'', body = BodyFails ''TypeError'' ''fetch failed''\<rparr>"]
  by (simp add: ok_def)

section \<open>Esplora: what a successful response comes to\<close>

lemma blockhash_on_success:
  "ok r \<Longrightarrow> body r = BodyRead b \<Longrightarrow>
   fst (Esplora_blockhash es (Responds r) s)
     = (if b = [] then Rejected (URLError (JString ''Empty body'')) else Fulfilled b)"
  by (simp add: esplora_defs promise_defs Let_def)

lemma block_on_success:
  "ok r \<Longrightarrow> body r = BodyRead b \<Longrightarrow>
   fst (Esplora_block es (Responds r) s)
     = (if \<not> truthy b then Rejected (URLError (JString ''Empty body''))
        else if \<not> truthy (get_prop b ''merkle_root'') \<or> \<not> truthy (get_prop b ''timestamp'')
          then Rejected (URLError b)
        else Fulfilled \<lparr>merkleroot = get_prop b ''merkle_root'', time = get_prop b ''timestamp''\<rparr>)"
  by (simp add: esplora_defs promise_defs Let_def)

text \<open>
  C7, as stated: a body that is empty after trimming fails. \<open>blockhash\<close> tests \<open>!body\<close>
  and trims nothing: a body of three spaces is returned as the block hash.
\<close>

theorem blockhash_whitespace_counterexample:
  "fst (Esplora_blockhash (Esplora_new None None)
          (Responds \<lparr>status = 200, statusText = ''OK'', body = BodyRead ''   ''\<rparr>)
          \<lparr>counter = 0, pending = []\<rparr>)
     = Fulfilled ''   ''"
  by (simp add: esplora_defs promise_defs Let_def ok_def)

text \<open>
  C7, amended: on a successful response \<open>blockhash\<close> fails with the \<open>URLError\<close> of
  message \<open>Empty body\<close> when the body text is the empty string, and returns every other
  body text, also one of white space only, as it is.
\<close>

theorem blockhash_empty_or_body:
  "ok r \<and> body r = BodyRead b \<longrightarrow>
     (b = [] \<longrightarrow> fst (Esplora_blockhash es (Responds r) s) = Rejected (URLError (JString ''Empty body'')))
   \<and> (b \<noteq> [] \<longrightarrow> fst (Esplora_blockhash es (Responds r) s) = Fulfilled b)"
  using blockhash_on_success [of r b es s] by simp

theorem blockhash_empty_or_body_witness:
  "fst (Esplora_blockhash (Esplora_new None None)
          (Responds \<lparr>status = 200, statusText = ''OK'', body = BodyRead ''''\<rparr>)
          \<lparr>counter = 0, pending = []\<rparr>)
     = Rejected (URLError (JString ''Empty body''))
   \<and> fst (Esplora_blockhash (Esplora_new None None)
          (Responds \<lparr>status = 200, statusText = ''OK'', body = BodyRead ''00000000000000000000''\<rparr>)
          \<lparr>counter = 0, pending = []\<rparr>)
     = Fulfilled ''00000000000000000000''"
  using blockhash_empty_or_body
    [of "\<lparr>status = 200, statusText = ''OK'', body = BodyRead ''''\<rparr>" "''''"
        "Esplora_new None None" "\<lparr>counter = 0, pending = []\<rparr>"]
    blockhash_empty_or_body
    [of "\<lparr>status = 200, statusText = ''OK'', body = BodyRead ''00000000000000000000''\<rparr>"
        "''00000000000000000000''" "Esplora_new None None" "\<lparr>counter = 0, pending = []\<rparr>"]
  by (simp add: ok_def)

text \<open>
  C6: on the body \<open>{"merkle_root":"abc","timestamp":123}\<close> \<open>block\<close> returns the pair
  of \<open>"abc"\<close> and \<open>123\<close> (the source spells the first field \<open>merkleroot\<close>); on
  \<open>{"merkle_root":"abc"}\<close>, and on every object that lacks one of the two fields, it
  rejects with the \<open>URLError\<close> that carries the body, and returns no pair. An object with
  both fields truthy gives the pair of their values.
\<close>

theorem block_pair_or_malformed:
  "fst (Esplora_block es
          (Responds \<lparr>status = 200, statusText = t,
             body = BodyRead (JObject [(''merkle_root'', JString ''abc''), (''timestamp'', JNumber 123)])\<rparr>) s)
     = Fulfilled \<lparr>merkleroot = JString ''abc'', time = JNumber 123\<rparr>
   \<and> fst (Esplora_block es
          (Responds \<lparr>status = 200, statusText = t,
             body = BodyRead (JObject [(''merkle_root'', JString ''abc'')])\<rparr>) s)
     = Rejected (URLError (JObject [(''merkle_root'', JString ''abc'')]))
   \<and> (ok r \<and> body r = BodyRead (JObject kvs)
        \<and> (map_of kvs ''merkle_root'' = None \<or> map_of kvs ''timestamp'' = None)
      \<longrightarrow> fst (Esplora_block es (Responds r) s) = Rejected (URLError (JObject kvs)))
   \<and> (ok r \<and> body r = BodyRead (JObject kvs)
        \<and> map_of kvs ''merkle_root'' = Some v \<and> truthy v
        \<and> map_of kvs ''timestamp'' = Some w \<and> truthy w
      \<longrightarrow> fst (Esplora_block es (Responds r) s) = Fulfilled \<lparr>merkleroot = v, time = w\<rparr>)"
  using block_on_success [of r "JObject kvs" es s]
    block_on_success [of "\<lparr>status = 200, statusText = t,
             body = BodyRead (JObject [(''merkle_root'', JString ''abc''), (''timestamp'', JNumber 123)])\<rparr>"
      "JObject [(''merkle_root'', JString ''abc''), (''timestamp'', JNumber 123)]" es s]
    block_on_success [of "\<lparr>status = 200, statusText = t,
             body = BodyRead (JObject [(''merkle_root'', JString ''abc'')])\<rparr>"
      "JObject [(''merkle_root'', JString ''abc'')]" es s]
  by (auto simp add: ok_def split: option.splits)

theorem block_pair_or_malformed_witness:
  "fst (Esplora_block (Esplora_new None None)
          (Responds \<lparr>status = 200, statusText = ''OK'',
             body = BodyRead (JObject [(''merkle_root'', JString ''abc''), (''timestamp'', JNumber 123)])\<rparr>)
          \<lparr>counter = 0, pending = []\<rparr>)
     = Fulfilled \<lparr>merkleroot = JString ''abc'', time = JNumber 123\<rparr>
   \<and> fst (Esplora_block (Esplora_new None None)
          (Responds \<lparr>status = 200, statusText = ''OK'',
             body = BodyRead (JObject [(''merkle_root'', JString ''abc'')])\<rparr>)
          \<lparr>counter = 0, pending = []\<rparr>)
     = Rejected (URLError (JObject [(''merkle_root'', JString ''abc'')]))
   \<and> fst (Esplora_block (Esplora_new None None)
          (Responds \<lparr>status = 200, statusText = ''OK'',
             body = BodyRead (JObject [(''timestamp'', JNumber 123)])\<rparr>)
          \<lparr>counter = 0, pending = []\<rparr>)
     = Rejected (URLError (JObject [(''timestamp'', JNumber 123)]))
   \<and> fst (Esplora_block (Esplora_new None None)
          (Responds \<lparr>status = 201, statusText = ''Created'',
             body = BodyRead (JObject [(''timestamp'', JNumber 5), (''merkle_root'', JString ''ff'')])\<rparr>)
          \<lparr>counter = 0, pending = []\<rparr>)
     = Fulfilled \<lparr>merkleroot = JString ''ff'', time = JNumber 5\<rparr>"
  using block_pair_or_malformed
    [of "Esplora_new None None" "''OK''" "\<lparr>counter = 0, pending = []\<rparr>"
        "\<lparr>status = 200, statusText = ''OK'', body = BodyRead (JObject [(''timestamp'', JNumber 123)])\<rparr>"
        "[(''timestamp'', JNumber 123)]"]
    block_pair_or_malformed
    [of "Esplora_new None None" "''OK''" "\<lparr>counter = 0, pending = []\<rparr>"
        "\<lparr>status = 201, statusText = ''Created'',
             body = BodyRead (JObject [(''timestamp'', JNumber 5), (''merkle_root'', JString ''ff'')])\<rparr>"
        "[(''timestamp'', JNumber 5), (''merkle_root'', JString ''ff'')]" "JString ''ff''" "JNumber 5"]
  by (simp add: ok_def)

text \<open>
  C10: a successful response whose body is truthy and whose \<open>merkle_root\<close> or
  \<open>timestamp\<close> is falsy (\<open>0\<close>, the empty string, \<open>null\<close>, \<open>false\<close>, or absent) is
  rejected with the same \<open>URLError\<close> as a body that lacks the field.
\<close>

theorem block_falsy_field_is_missing:
  "ok r \<and> body r = BodyRead b \<and> truthy b
     \<and> (\<not> truthy (get_prop b ''merkle_root'') \<or> \<not> truthy (get_prop b ''timestamp''))
   \<longrightarrow> fst (Esplora_block es (Responds r) s) = Rejected (URLError b)"
  using block_on_success [of r b es s] by auto

theorem block_falsy_field_is_missing_witness:
  "fst (Esplora_block (Esplora_new None None)
          (Responds \<lparr>status = 200, statusText = ''OK'',
             body = BodyRead (JObject [(''merkle_root'', JString ''abc''), (''timestamp'', JNumber 0)])\<rparr>)
          \<lparr>counter = 0, pending = []\<rparr>)
     = Rejected (URLError (JObject [(''merkle_root'', JString ''abc''), (''timestamp'', JNumber 0)]))
   \<and> fst (Esplora_block (Esplora_new None None)
          (Responds \<lparr>status = 200, statusText = ''OK'',
             body = BodyRead (JObject [(''merkle_root'', JString ''''), (''timestamp'', JNumber 123)])\<rparr>)
          \<lparr>counter = 0, pending = []\<rparr>)
     = Rejected (URLError (JObject [(''merkle_root'', JString ''''), (''timestamp'', JNumber 123)]))"
  using block_falsy_field_is_missing
    [of "\<lparr>status = 200, statusText = ''OK'',
             body = BodyRead (JObject [(''merkle_root'', JString ''abc''), (''timestamp'', JNumber 0)])\<rparr>"
        "JObject [(''merkle_root'', JString ''abc''), (''timestamp'', JNumber 0)]"
        "Esplora_new None None" "\<lparr>counter = 0, pending = []\<rparr>"]
    block_falsy_field_is_missing
    [of "\<lparr>status = 200, statusText = ''OK'',
             body = BodyRead (JObject [(''merkle_root'', JString ''''), (''timestamp'', JNumber 123)])\<rparr>"
        "JObject [(''merkle_root'', JString ''''), (''timestamp'', JNumber 123)]"
        "Esplora_new None None" "\<lparr>counter = 0, pending = []\<rparr>"]
  by (simp add: ok_def)

section \<open>UrlWhitelist\<close>

lemmas whitelist_defs = UrlWhitelist_new_def UrlWhitelist_add_def Set_add_def startsWith_def
  UrlWhitelist_contains_def minimatch_def TypeError_new_def

lemma contains_iff_some_pattern:
  "UrlWhitelist_contains W u \<longleftrightarrow> (\<exists>p \<in> set W. minimatch u p)"
  by (simp add: UrlWhitelist_contains_def filter_empty_conv)

lemma default_whitelist_value:
  "DEFAULT_CALENDAR_WHITELIST =
     Inr [''https://*.calendar.opentimestamps.org'',
          ''https://*.calendar.eternitywall.com'',
          ''https://*.calendar.catallaxy.com'']"
  by (simp add: DEFAULT_CALENDAR_WHITELIST_def whitelist_defs)



text \<open>
  C5: \<open>contains\<close> is true exactly when some stored pattern matches the URL. The default
  calendar whitelist holds the three \<open>https\<close> patterns; it contains
  \<open>https://sub.calendar.opentimestamps.org\<close>, and a host of two labels under the
  wildcard, where \<open>*\<close> runs across a dot; it does not contain \<open>https://evil.com\<close>.
\<close>

theorem contains_glob_default_whitelist:
  "(UrlWhitelist_contains W u \<longleftrightarrow> (\<exists>p \<in> set W. minimatch u p))
   \<and> DEFAULT_CALENDAR_WHITELIST =
       Inr [''https://*.calendar.opentimestamps.org'',
            ''https://*.calendar.eternitywall.com'',
            ''https://*.calendar.catallaxy.com'']
   \<and> UrlWhitelist_contains (projr DEFAULT_CALENDAR_WHITELIST) ''https://sub.calendar.opentimestamps.org''
   \<and> UrlWhitelist_contains (projr DEFAULT_CALENDAR_WHITELIST) ''https://alice.btc.calendar.opentimestamps.org''
   \<and> \<not> UrlWhitelist_contains (projr DEFAULT_CALENDAR_WHITELIST) ''https://evil.com''"
  by (simp add: contains_iff_some_pattern default_whitelist_value minimatch_def)

theorem contains_glob_default_whitelist_witness:
  "UrlWhitelist_contains [''https://*.calendar.eternitywall.com'', ''http://localhost:?4788'']
      ''http://localhost:14788''
   \<and> \<not> UrlWhitelist_contains [''https://*.calendar.eternitywall.com'', ''http://localhost:?4788'']
      ''http://localhost:4788''"
  using contains_glob_default_whitelist
    [of "[''https://*.calendar.eternitywall.com'', ''http://localhost:?4788'']" "''http://localhost:14788''"]
    contains_glob_default_whitelist
    [of "[''https://*.calendar.eternitywall.com'', ''http://localhost:?4788'']" "''http://localhost:4788''"]
  by (simp add: minimatch_def)

end
